theory Spec2Isabelle
  imports Complex_Main "HOL-Library.Signed_Division"
begin

section \<open>Data model (types.ts)\<close>

text \<open>
  A JavaScript \<open>number\<close> that holds a coordinate, a velocity or a time stamp is modelled
  as a \<open>real\<close>: ideal arithmetic, without rounding, NaN or infinities. The two module
  counters only ever hold small integers (exactly representable), so they are \<open>int\<close>;
  a counter value stored in a cursor is embedded with \<open>of_int\<close>.

  The cursor fields \<open>x, y, vx, vy, a\<close> of the source carry the prefix \<open>cur_\<close> here, since a
  record field is a constant and one-letter names would capture variables.
\<close>

record TuioCursor =
  sessionId :: real
  cur_x :: real
  cur_y :: real
  cur_vx :: real
  cur_vy :: real
  cur_a :: real
  lastTime :: real

datatype OSCArgument = Str string | Num real

record OSCMessage =
  address :: string
  args :: "OSCArgument list"

datatype Protocol = WEBSOCKET | UDP_BRIDGE

record AppSettings =
  host :: string
  port :: int
  protocol :: Protocol
  periodicUpdates :: bool
  fullBundle :: bool
  blobMessages :: bool
  invertY :: bool
  coordinateScale :: real

text \<open>
  The value handed to \<open>JSON.stringify\<close>. The serialiser belongs to the runtime, not to the
  repository, so a payload is modelled as the document that is serialised: an object is
  the ordered list of its fields.
\<close>

datatype json =
  JString string
| JNumber real
| JBool bool
| JArray "json list"
| JObject "(string \<times> json) list"

fun argument_json :: "OSCArgument \<Rightarrow> json" where
  "argument_json (Str s) = JString s"
| "argument_json (Num n) = JNumber n"

definition message_json :: "OSCMessage \<Rightarrow> json" where
  "message_json m =
     JObject [(''address'', JString (address m)), (''args'', JArray (map argument_json (args m)))]"

fun has_field :: "string \<Rightarrow> json \<Rightarrow> bool" where
  "has_field k (JObject fs) = (k \<in> set (map fst fs))"
| "has_field k (JString s) = False"
| "has_field k (JNumber n) = False"
| "has_field k (JBool b) = False"
| "has_field k (JArray js) = False"

section \<open>constants.ts\<close>

definition TUIO_PROFILE :: string where
  "TUIO_PROFILE = ''/tuio/2Dcur''"

definition SOURCE_NAME :: string where
  "SOURCE_NAME = ''WebTUIO@webclient''"

definition DEFAULT_SETTINGS :: AppSettings where
  "DEFAULT_SETTINGS =
     \<lparr>host = ''127.0.0.1'',
      port = 8080,
      protocol = UDP_BRIDGE,
      periodicUpdates = True,
      fullBundle = True,
      blobMessages = False,
      invertY = False,
      coordinateScale = 1\<rparr>"

section \<open>The TUIO service\<close>

subsection \<open>Session identifiers\<close>

text \<open>
  \<open>getNextSessionId\<close> reads and writes the module variable \<open>sessionIdCounter\<close>; the model
  takes the counter and returns the identifier together with the new counter.
\<close>

definition getNextSessionId :: "int \<Rightarrow> int \<times> int" where
  "getNextSessionId sessionIdCounter =
     (let c = sessionIdCounter + 1;
          c = (if c > 10000 then 0 else c)
      in (c, c))"

text \<open>The counter after \<open>n\<close> acquisitions, and the identifier the \<open>n\<close>-th acquisition returns
  (counting from one) when the counter starts at \<open>c\<close>.\<close>

primrec counter_after :: "nat \<Rightarrow> int \<Rightarrow> int" where
  "counter_after 0 c = c"
| "counter_after (Suc n) c = snd (getNextSessionId (counter_after n c))"

definition nth_acquired :: "nat \<Rightarrow> int \<Rightarrow> int" where
  "nth_acquired n c = fst (getNextSessionId (counter_after (n - 1) c))"

subsection \<open>Message constructors\<close>

definition createSourceMessage :: OSCMessage where
  "createSourceMessage = \<lparr>address = TUIO_PROFILE, args = [Str ''source'', Str SOURCE_NAME]\<rparr>"

definition createAliveMessage :: "real list \<Rightarrow> OSCMessage" where
  "createAliveMessage activeIds = \<lparr>address = TUIO_PROFILE, args = Str ''alive'' # map Num activeIds\<rparr>"

text \<open>
  \<open>createFseqMessage\<close> updates the module variable \<open>fseq\<close>. The remainder operator of
  JavaScript takes the sign of the dividend, which on integers is \<open>smod\<close>.
\<close>

definition createFseqMessage :: "int \<Rightarrow> OSCMessage \<times> int" where
  "createFseqMessage fseq =
     (let fseq = (fseq + 1) smod 2147483648
      in (\<lparr>address = TUIO_PROFILE, args = [Str ''fseq'', Num (of_int fseq)]\<rparr>, fseq))"

primrec fseq_after :: "nat \<Rightarrow> int \<Rightarrow> int" where
  "fseq_after 0 f = f"
| "fseq_after (Suc n) f = snd (createFseqMessage (fseq_after n f))"

text \<open>\<open>Math.floor\<close> yields a number again; \<open>Number\<close> applied to a number returns it.\<close>

definition Math_floor :: "real \<Rightarrow> real" where
  "Math_floor v = of_int \<lfloor>v\<rfloor>"

definition createSetMessage :: "TuioCursor \<Rightarrow> OSCMessage" where
  "createSetMessage cursor =
     \<lparr>address = TUIO_PROFILE,
      args = [Str ''set'',
              Num (Math_floor (sessionId cursor)),
              Num (cur_x cursor),
              Num (cur_y cursor),
              Num (cur_vx cursor),
              Num (cur_vy cursor),
              Num (cur_a cursor)]\<rparr>"

text \<open>
  The handlers call \<open>createSetMessage(cursor, settings.coordinateScale)\<close>, and
  \<open>handleMouseUp\<close> calls \<open>createSetMessage(cursor)\<close>. The function declares the single
  parameter \<open>cursor\<close>, so the runtime drops a second argument; \<open>None\<close> is the call
  without one.
\<close>

definition createSetMessage_call :: "TuioCursor \<Rightarrow> real option \<Rightarrow> OSCMessage" where
  "createSetMessage_call cursor scale = createSetMessage cursor"

subsection \<open>Cursor physics\<close>

text \<open>
  \<open>updateCursorPhysics\<close> and \<open>createNewCursor\<close> read the clock with \<open>performance.now()\<close>;
  the reading is the parameter \<open>now\<close> (milliseconds).
\<close>

definition updateCursorPhysics :: "TuioCursor \<Rightarrow> real \<Rightarrow> real \<Rightarrow> real \<Rightarrow> TuioCursor" where
  "updateCursorPhysics current newX newY now =
     (let dt = (now - lastTime current) / 1000
      in if dt \<le> 0.001
         then current\<lparr>cur_x := newX, cur_y := newY, lastTime := now\<rparr>
         else
           let dx = newX - cur_x current;
               dy = newY - cur_y current;
               newVx = dx / dt;
               newVy = dy / dt;
               dv = sqrt ((newVx - cur_vx current)\<^sup>2 + (newVy - cur_vy current)\<^sup>2);
               newA = dv / dt
           in \<lparr>sessionId = sessionId current,
               cur_x = newX,
               cur_y = newY,
               cur_vx = newVx,
               cur_vy = newVy,
               cur_a = newA,
               lastTime = now\<rparr>)"

definition createNewCursor :: "int \<Rightarrow> real \<Rightarrow> real \<Rightarrow> real \<Rightarrow> TuioCursor \<times> int" where
  "createNewCursor sessionIdCounter px py now =
     (let (sid, counter) = getNextSessionId sessionIdCounter
      in (\<lparr>sessionId = of_int sid,
           cur_x = px,
           cur_y = py,
           cur_vx = 0,
           cur_vy = 0,
           cur_a = 0,
           lastTime = now\<rparr>, counter))"

subsection \<open>Packets\<close>

text \<open>\<open>dateNow\<close> is the reading of \<open>Date.now()\<close>, whole milliseconds.\<close>

definition generatePacket :: "int \<Rightarrow> OSCMessage list \<Rightarrow> AppSettings \<Rightarrow> json" where
  "generatePacket dateNow messages settings =
     (if fullBundle settings
      then JObject [(''timeTag'', JNumber (of_int dateNow)),
                    (''packets'', JArray (map message_json messages))]
      else if length messages = 1
           then message_json (messages ! 0)
           else JObject [(''bundle'', JBool True),
                         (''packets'', JArray (map message_json messages))])"

text \<open>The bundle envelope as the specification words it: a time stamp and the ordered
  message list.\<close>

definition spec_bundle_envelope :: "int \<Rightarrow> OSCMessage list \<Rightarrow> json" where
  "spec_bundle_envelope dateNow messages =
     JObject [(''timeTag'', JNumber (of_int dateNow)),
              (''packets'', JArray (map message_json messages))]"

section \<open>The touch surface\<close>

subsection \<open>The active-cursor map\<close>

text \<open>
  \<open>cursorsRef\<close> holds a \<open>Map<string, TuioCursor>\<close>. A JavaScript \<open>Map\<close> iterates in insertion
  order; \<open>set\<close> on a key that is present replaces the value where it stands, \<open>set\<close> on a
  new key appends, \<open>delete\<close> removes the entry. The model is an association list in
  iteration order.
\<close>

type_synonym CursorMap = "(string \<times> TuioCursor) list"

fun Map_set :: "string \<Rightarrow> TuioCursor \<Rightarrow> CursorMap \<Rightarrow> CursorMap" where
  "Map_set k v [] = [(k, v)]"
| "Map_set k v (e # m) = (if fst e = k then (k, v) # m else e # Map_set k v m)"

definition Map_get :: "CursorMap \<Rightarrow> string \<Rightarrow> TuioCursor option" where
  "Map_get m k = map_of m k"

definition Map_delete :: "string \<Rightarrow> CursorMap \<Rightarrow> CursorMap" where
  "Map_delete k m = filter (\<lambda>e. fst e \<noteq> k) m"

definition Map_values :: "CursorMap \<Rightarrow> TuioCursor list" where
  "Map_values m = map snd m"

subsection \<open>State and inputs\<close>

text \<open>
  The mutable state the handlers share: the two module variables of the service and the
  refs of the component.
\<close>

record RouterState =
  sessionIdCounter :: int
  fseq :: int
  cursors :: CursorMap
  mouseId :: "string option"
  lastMouseMoveTime :: real
  lastPeriodicUpdate :: real

definition initialState :: RouterState where
  "initialState =
     \<lparr>sessionIdCounter = 0, fseq = 0, cursors = [], mouseId = None,
      lastMouseMoveTime = 0, lastPeriodicUpdate = 0\<rparr>"

record DOMRect =
  rect_left :: real
  rect_top :: real
  rect_width :: real
  rect_height :: real

text \<open>One entry of \<open>changedTouches\<close> (\<open>touch_identifier\<close> is its \<open>identifier\<close>); \<open>perfNow\<close> is the reading of \<open>performance.now()\<close> taken
  while the entry is handled.\<close>

record Touch =
  touch_identifier :: int
  clientX :: real
  clientY :: real
  perfNow :: real

datatype TouchType = Start | Move | End | Cancel

text \<open>\<open>touch.identifier.toString()\<close> for an integer identifier.\<close>

fun digits :: "nat \<Rightarrow> string" where
  "digits n = (if n < 10 then [''0123456789'' ! n]
               else digits (n div 10) @ [''0123456789'' ! (n mod 10)])"

definition toString :: "int \<Rightarrow> string" where
  "toString i = (if i < 0 then CHR ''-'' # digits (nat (- i)) else digits (nat i))"

text \<open>
  Every handler normalises the pointer position against the bounding rectangle, clamps
  it to the unit square and mirrors the ordinate when \<open>invertY\<close> is set. (A rectangle of
  width or height zero gives NaN in the source and is outside this model.)
\<close>

definition normalise :: "AppSettings \<Rightarrow> DOMRect \<Rightarrow> real \<Rightarrow> real \<Rightarrow> real \<times> real" where
  "normalise settings rect px py =
     (let normX = (px - rect_left rect) / rect_width rect;
          normY = (py - rect_top rect) / rect_height rect;
          normX = max 0 (min 1 normX);
          normY = max 0 (min 1 normY);
          normY = (if invertY settings then 1 - normY else normY)
      in (normX, normY))"

subsection \<open>Frames\<close>

text \<open>
  Each handler builds its frame with the same statements: the source message, one set
  message per entry of the map in iteration order, the alive message over the session
  identifiers in the same order, and the fseq message, which advances the counter.
\<close>

definition buildFrame :: "real option \<Rightarrow> RouterState \<Rightarrow> OSCMessage list \<times> RouterState" where
  "buildFrame scale st =
     (let messages = [createSourceMessage];
          messages = messages @ map (\<lambda>cursor. createSetMessage_call cursor scale) (Map_values (cursors st));
          activeSessionIds = map sessionId (Map_values (cursors st));
          messages = messages @ [createAliveMessage activeSessionIds];
          (m, f) = createFseqMessage (fseq st);
          messages = messages @ [m]
      in (messages, st\<lparr>fseq := f\<rparr>))"

text \<open>\<open>sendBundle\<close>: the packet handed to the socket, if the socket is open.\<close>

definition sendBundle :: "bool \<Rightarrow> int \<Rightarrow> AppSettings \<Rightarrow> OSCMessage list \<Rightarrow> json option" where
  "sendBundle socketOpen dateNow settings messages =
     (if socketOpen then Some (generatePacket dateNow messages settings) else None)"

subsection \<open>Handlers\<close>

text \<open>
  A handler returns the new state and the frame it built, \<open>None\<close> when it returned before
  building one.
\<close>

definition touchStep :: "AppSettings \<Rightarrow> DOMRect \<Rightarrow> TouchType \<Rightarrow> RouterState \<Rightarrow> Touch \<Rightarrow> RouterState" where
  "touchStep settings rect type st touch =
     (let idStr = toString (touch_identifier touch);
          (normX, normY) = normalise settings rect (clientX touch) (clientY touch)
      in case type of
           Start \<Rightarrow>
             (let (newCursor, counter) = createNewCursor (sessionIdCounter st) normX normY (perfNow touch)
              in st\<lparr>sessionIdCounter := counter, cursors := Map_set idStr newCursor (cursors st)\<rparr>)
         | Move \<Rightarrow>
             (case Map_get (cursors st) idStr of
                Some existing \<Rightarrow>
                  (let updated = updateCursorPhysics existing normX normY (perfNow touch)
                   in st\<lparr>cursors := Map_set idStr updated (cursors st)\<rparr>)
              | None \<Rightarrow> st)
         | End \<Rightarrow> st\<lparr>cursors := Map_delete idStr (cursors st)\<rparr>
         | Cancel \<Rightarrow> st\<lparr>cursors := Map_delete idStr (cursors st)\<rparr>)"

definition processTouch ::
  "AppSettings \<Rightarrow> DOMRect \<Rightarrow> TouchType \<Rightarrow> Touch list \<Rightarrow> RouterState \<Rightarrow> RouterState \<times> OSCMessage list option" where
  "processTouch settings rect type changedTouches st =
     (let st = foldl (touchStep settings rect type) st changedTouches;
          (messages, st) = buildFrame (Some (coordinateScale settings)) st
      in (st, Some messages))"

definition handleMouseDown ::
  "AppSettings \<Rightarrow> DOMRect \<Rightarrow> int \<Rightarrow> real \<Rightarrow> real \<Rightarrow> real \<Rightarrow> RouterState \<Rightarrow> RouterState \<times> OSCMessage list option" where
  "handleMouseDown settings rect button px py now st =
     (if button \<noteq> 0 then (st, None)
      else
        let (normX, normY) = normalise settings rect px py;
            idStr = ''mouse-0'';
            (newCursor, counter) = createNewCursor (sessionIdCounter st) normX normY now;
            st = st\<lparr>mouseId := Some idStr, sessionIdCounter := counter,
                    cursors := Map_set idStr newCursor (cursors st)\<rparr>;
            (messages, st) = buildFrame (Some (coordinateScale settings)) st
        in (st, Some messages))"

text \<open>\<open>!mouseIdRef.current\<close> holds for \<open>null\<close> and for the empty string.\<close>

definition MOUSE_MOVE_THROTTLE :: real where
  "MOUSE_MOVE_THROTTLE = 16"

text \<open>\<open>handleMouseMove\<close> reads the clock twice: \<open>now\<close> for the throttle, \<open>nowPhysics\<close> inside
  \<open>updateCursorPhysics\<close>.\<close>

definition handleMouseMove ::
  "AppSettings \<Rightarrow> DOMRect \<Rightarrow> real \<Rightarrow> real \<Rightarrow> real \<Rightarrow> real \<Rightarrow> RouterState \<Rightarrow> RouterState \<times> OSCMessage list option" where
  "handleMouseMove settings rect px py now nowPhysics st =
     (case mouseId st of
        None \<Rightarrow> (st, None)
      | Some idStr \<Rightarrow>
          if idStr = [] then (st, None)
          else if now - lastMouseMoveTime st < MOUSE_MOVE_THROTTLE then (st, None)
          else
            let st = st\<lparr>lastMouseMoveTime := now\<rparr>;
                (normX, normY) = normalise settings rect px py
            in case Map_get (cursors st) idStr of
                 Some existing \<Rightarrow>
                   (let updated = updateCursorPhysics existing normX normY nowPhysics;
                        st = st\<lparr>cursors := Map_set idStr updated (cursors st)\<rparr>;
                        (messages, st) = buildFrame (Some (coordinateScale settings)) st
                    in (st, Some messages))
               | None \<Rightarrow> (st, None))"

definition handleMouseUp :: "RouterState \<Rightarrow> RouterState \<times> OSCMessage list option" where
  "handleMouseUp st =
     (case mouseId st of
        None \<Rightarrow> (st, None)
      | Some idStr \<Rightarrow>
          if idStr = [] then (st, None)
          else
            let st = st\<lparr>cursors := Map_delete idStr (cursors st), mouseId := None\<rparr>;
                (messages, st) = buildFrame None st
            in (st, Some messages))"

definition PERIODIC_UPDATE_INTERVAL :: real where
  "PERIODIC_UPDATE_INTERVAL = 33"

text \<open>The heartbeat of \<open>loop\<close> (the visual cursors it also refreshes are not modelled).\<close>

definition loop :: "AppSettings \<Rightarrow> real \<Rightarrow> RouterState \<Rightarrow> RouterState \<times> OSCMessage list option" where
  "loop settings now st =
     (if periodicUpdates settings \<and> length (cursors st) > 0
      then
        if now - lastPeriodicUpdate st \<ge> PERIODIC_UPDATE_INTERVAL
        then
          let (messages, st) = buildFrame (Some (coordinateScale settings)) st
          in (st\<lparr>lastPeriodicUpdate := now\<rparr>, Some messages)
        else (st, None)
      else (st, None))"

subsection \<open>Event sequences\<close>

datatype Event =
  TouchEvent TouchType DOMRect "Touch list"
| MouseDown DOMRect int real real real
| MouseMove DOMRect real real real real
| MouseUp
| Tick real

fun step :: "AppSettings \<Rightarrow> RouterState \<Rightarrow> Event \<Rightarrow> RouterState \<times> OSCMessage list option" where
  "step settings st (TouchEvent type rect changedTouches) = processTouch settings rect type changedTouches st"
| "step settings st (MouseDown rect button px py now) = handleMouseDown settings rect button px py now st"
| "step settings st (MouseMove rect px py now nowPhysics) = handleMouseMove settings rect px py now nowPhysics st"
| "step settings st MouseUp = handleMouseUp st"
| "step settings st (Tick now) = loop settings now st"

definition run :: "AppSettings \<Rightarrow> Event list \<Rightarrow> RouterState \<Rightarrow> RouterState" where
  "run settings evs st = foldl (\<lambda>s ev. fst (step settings s ev)) st evs"

text \<open>The number of calls of \<open>getNextSessionId\<close> an event makes: one per touch of a
  \<open>touchstart\<close>, one per left-button \<open>mousedown\<close>.\<close>

fun acquisitions_of :: "Event \<Rightarrow> nat" where
  "acquisitions_of (TouchEvent Start rect changedTouches) = length changedTouches"
| "acquisitions_of (TouchEvent type rect changedTouches) = 0"
| "acquisitions_of (MouseDown rect button px py now) = (if button = 0 then 1 else 0)"
| "acquisitions_of ev = 0"

definition acquisitions :: "Event list \<Rightarrow> nat" where
  "acquisitions evs = sum_list (map acquisitions_of evs)"

subsection \<open>Predicates used in the proofs\<close>

text \<open>
  After \<open>n\<close> acquisitions, none of which wrapped the counter: the counter is \<open>n\<close>, and the
  cursors of the map carry pairwise different identifiers between \<open>1\<close> and \<open>n\<close>.
\<close>

definition session_inv :: "nat \<Rightarrow> RouterState \<Rightarrow> bool" where
  "session_inv n st \<longleftrightarrow>
     sessionIdCounter st = int n \<and> n \<le> 10000
     \<and> distinct (map sessionId (Map_values (cursors st)))
     \<and> (\<forall>c \<in> set (Map_values (cursors st)). \<exists>k::int. 1 \<le> k \<and> k \<le> int n \<and> sessionId c = of_int k)"

text \<open>The frame over the state a handler leaves behind.\<close>

definition frame_of :: "RouterState \<Rightarrow> OSCMessage list" where
  "frame_of st =
     createSourceMessage # map createSetMessage (Map_values (cursors st))
       @ [createAliveMessage (map sessionId (Map_values (cursors st))),
          \<lparr>address = TUIO_PROFILE, args = [Str ''fseq'', Num (of_int (fseq st))]\<rparr>]"

section \<open>Auxiliary facts\<close>

declare digits.simps [simp del]

subsection \<open>Counters\<close>

lemma smod_nonneg: "0 \<le> k \<Longrightarrow> 0 < l \<Longrightarrow> (k::int) smod l = k mod l"
  by (simp add: smod_int_alt_def sgn_if)

lemma fseq_step: "0 \<le> f \<Longrightarrow> snd (createFseqMessage f) = (f + 1) mod 2147483648"
  by (simp add: createFseqMessage_def Let_def smod_nonneg)

lemma fseq_after_eq: "fseq_after n 0 = int n mod 2147483648"
proof (induction n)
  case 0
  show ?case by simp
next
  case (Suc n)
  have "0 \<le> fseq_after n 0" using Suc by simp
  then have "fseq_after (Suc n) 0 = (fseq_after n 0 + 1) mod 2147483648"
    by (simp add: fseq_step)
  also have "\<dots> = (int n + 1) mod 2147483648"
    unfolding Suc by (simp add: mod_add_left_eq)
  finally show ?case by (simp add: add.commute)
qed

lemma counter_after_eq: "n \<le> 10000 \<Longrightarrow> counter_after n 0 = int n"
  by (induction n) (simp_all add: getNextSessionId_def Let_def)

lemma counter_after_range: "0 \<le> counter_after n 0 \<and> counter_after n 0 \<le> 10000"
  by (induction n) (simp_all add: getNextSessionId_def Let_def)

subsection \<open>Frames\<close>

lemma buildFrame_eq:
  "buildFrame scale st =
     (createSourceMessage # map createSetMessage (Map_values (cursors st))
        @ [createAliveMessage (map sessionId (Map_values (cursors st))),
           fst (createFseqMessage (fseq st))],
      st\<lparr>fseq := snd (createFseqMessage (fseq st))\<rparr>)"
  by (simp add: buildFrame_def Let_def createSetMessage_call_def split: prod.splits)

lemma fseq_message_eq:
  "fst (createFseqMessage f) =
     \<lparr>address = TUIO_PROFILE, args = [Str ''fseq'', Num (of_int (snd (createFseqMessage f)))]\<rparr>"
  by (simp add: createFseqMessage_def Let_def)

lemma buildFrame_frame_of:
  "buildFrame scale st = (ms, st') \<Longrightarrow> ms = frame_of st' \<and> cursors st' = cursors st
      \<and> sessionIdCounter st' = sessionIdCounter st"
  by (auto simp add: buildFrame_eq frame_of_def fseq_message_eq)

lemma step_frame:
  "step settings st ev = (st', Some frame) \<Longrightarrow> frame = frame_of st'"
proof (cases ev)
  case (TouchEvent type rect ts)
  assume "step settings st ev = (st', Some frame)"
  then show ?thesis using TouchEvent
    by (auto simp add: processTouch_def Let_def split: prod.splits dest: buildFrame_frame_of)
next
  case (MouseDown rect button px py now)
  assume "step settings st ev = (st', Some frame)"
  then show ?thesis using MouseDown
    by (auto simp add: handleMouseDown_def Let_def split: prod.splits if_splits dest: buildFrame_frame_of)
next
  case (MouseMove rect px py now nowPhysics)
  assume "step settings st ev = (st', Some frame)"
  then show ?thesis using MouseMove
    by (auto simp add: handleMouseMove_def Let_def split: prod.splits if_splits option.splits dest: buildFrame_frame_of)
next
  case MouseUp
  assume "step settings st ev = (st', Some frame)"
  then show ?thesis using MouseUp
    by (auto simp add: handleMouseUp_def Let_def split: prod.splits if_splits option.splits dest: buildFrame_frame_of)
next
  case (Tick now)
  assume "step settings st ev = (st', Some frame)"
  then show ?thesis using Tick
    by (auto simp add: loop_def Let_def frame_of_def split: prod.splits if_splits dest!: buildFrame_frame_of)
qed

subsection \<open>The map\<close>

lemma Map_set_values_subset:
  "set (Map_values (Map_set k v m)) \<subseteq> insert v (set (Map_values m))"
  by (induction m) (auto simp add: Map_values_def)

lemma Map_set_distinct_fresh:
  "distinct (map f (Map_values m)) \<Longrightarrow> f v \<notin> f ` set (Map_values m)
     \<Longrightarrow> distinct (map f (Map_values (Map_set k v m)))"
proof (induction m)
  case Nil
  show ?case by (simp add: Map_values_def)
next
  case (Cons e m)
  have sub: "set (Map_values (Map_set k v m)) \<subseteq> insert v (set (Map_values m))"
    by (rule Map_set_values_subset)
  from Cons.prems have d: "distinct (map f (Map_values m))" and fe: "f (snd e) \<notin> f ` set (Map_values m)"
    and fv: "f v \<notin> f ` set (Map_values m)" and ne: "f v \<noteq> f (snd e)"
    by (auto simp add: Map_values_def)
  show ?case
  proof (cases "fst e = k")
    case True
    then show ?thesis using d fv by (auto simp add: Map_values_def)
  next
    case False
    have "distinct (map f (Map_values (Map_set k v m)))" using Cons.IH d fv by simp
    moreover have "f (snd e) \<notin> f ` set (Map_values (Map_set k v m))"
      using sub fe ne by auto
    ultimately show ?thesis using False by (auto simp add: Map_values_def)
  qed
qed

lemma Map_set_same_key:
  "Map_get m k = Some e \<Longrightarrow> f v = f e \<Longrightarrow> map f (Map_values (Map_set k v m)) = map f (Map_values m)"
  by (induction m) (auto simp add: Map_values_def Map_get_def)

lemma Map_get_in_values: "Map_get m k = Some e \<Longrightarrow> e \<in> set (Map_values m)"
  by (auto simp add: Map_get_def Map_values_def dest: map_of_SomeD intro: rev_image_eqI)

lemma Map_delete_values_subset: "set (Map_values (Map_delete k m)) \<subseteq> set (Map_values m)"
  by (auto simp add: Map_values_def Map_delete_def)

lemma Map_delete_distinct:
  "distinct (map f (Map_values m)) \<Longrightarrow> distinct (map f (Map_values (Map_delete k m)))"
  by (induction m) (auto simp add: Map_values_def Map_delete_def)

lemma Map_get_delete: "Map_get (Map_delete k m) k = None"
  by (induction m) (auto simp add: Map_get_def Map_delete_def)

lemma updateCursorPhysics_sessionId:
  "sessionId (updateCursorPhysics c px py now) = sessionId c"
  by (simp add: updateCursorPhysics_def Let_def)

subsection \<open>Session identifiers stay distinct\<close>

lemma session_inv_fseq: "session_inv n (st\<lparr>fseq := f\<rparr>) = session_inv n st"
  by (simp add: session_inv_def)

lemma session_inv_times:
  "session_inv n (st\<lparr>lastMouseMoveTime := t\<rparr>) = session_inv n st"
  "session_inv n (st\<lparr>lastPeriodicUpdate := t\<rparr>) = session_inv n st"
  "session_inv n (st\<lparr>mouseId := mi\<rparr>) = session_inv n st"
  by (simp_all add: session_inv_def)

lemma session_inv_acquire:
  assumes inv: "session_inv n st" and le: "Suc n \<le> 10000"
  shows "session_inv (Suc n)
           (st\<lparr>sessionIdCounter := snd (createNewCursor (sessionIdCounter st) px py now),
               cursors := Map_set k (fst (createNewCursor (sessionIdCounter st) px py now)) (cursors st)\<rparr>)"
proof -
  let ?c = "fst (createNewCursor (sessionIdCounter st) px py now)"
  from inv have cnt: "sessionIdCounter st = int n" by (simp add: session_inv_def)
  have sid: "sessionId ?c = of_int (int n + 1)" and cnt': "snd (createNewCursor (sessionIdCounter st) px py now) = int n + 1"
    using le by (simp_all add: createNewCursor_def getNextSessionId_def Let_def cnt)
  from inv have d: "distinct (map sessionId (Map_values (cursors st)))"
    and r: "\<forall>c \<in> set (Map_values (cursors st)). \<exists>k::int. 1 \<le> k \<and> k \<le> int n \<and> sessionId c = of_int k"
    by (simp_all add: session_inv_def)
  have fresh: "sessionId ?c \<notin> sessionId ` set (Map_values (cursors st))"
  proof
    assume "sessionId ?c \<in> sessionId ` set (Map_values (cursors st))"
    then obtain c where c: "c \<in> set (Map_values (cursors st))" and e: "sessionId c = sessionId ?c" by auto
    from r c obtain k :: int where k: "k \<le> int n" "sessionId c = of_int k" by blast
    from k e sid have "(of_int k :: real) = of_int (int n + 1)" by simp
    then have "k = int n + 1" by (simp only: of_int_eq_iff)
    with k show False by simp
  qed
  have d': "distinct (map sessionId (Map_values (Map_set k ?c (cursors st))))"
    using d fresh by (rule Map_set_distinct_fresh)
  have r': "\<forall>c \<in> set (Map_values (Map_set k ?c (cursors st))). \<exists>j::int. 1 \<le> j \<and> j \<le> int (Suc n) \<and> sessionId c = of_int j"
  proof
    fix c assume "c \<in> set (Map_values (Map_set k ?c (cursors st)))"
    then have "c = ?c \<or> c \<in> set (Map_values (cursors st))"
      using Map_set_values_subset [of k ?c "cursors st"] by auto
    then show "\<exists>j::int. 1 \<le> j \<and> j \<le> int (Suc n) \<and> sessionId c = of_int j"
    proof
      assume "c = ?c"
      then have "sessionId c = of_int (int n + 1)" using sid by simp
      then show ?thesis by (intro exI [of _ "int n + 1"]) simp
    next
      assume "c \<in> set (Map_values (cursors st))"
      with r obtain j :: int where "1 \<le> j" "j \<le> int n" "sessionId c = of_int j" by blast
      then show ?thesis by (intro exI [of _ j]) simp
    qed
  qed
  show ?thesis using d' r' cnt' le by (simp add: session_inv_def)
qed

lemma session_inv_update:
  assumes inv: "session_inv n st" and g: "Map_get (cursors st) k = Some e"
  shows "session_inv n (st\<lparr>cursors := Map_set k (updateCursorPhysics e px py now) (cursors st)\<rparr>)"
proof -
  let ?u = "updateCursorPhysics e px py now"
  have same: "map sessionId (Map_values (Map_set k ?u (cursors st))) = map sessionId (Map_values (cursors st))"
    using g by (rule Map_set_same_key) (simp add: updateCursorPhysics_sessionId)
  have "sessionId ` set (Map_values (Map_set k ?u (cursors st))) = sessionId ` set (Map_values (cursors st))"
    using arg_cong [OF same, of set] by simp
  then have r: "\<And>c. c \<in> set (Map_values (Map_set k ?u (cursors st))) \<Longrightarrow>
                   \<exists>c' \<in> set (Map_values (cursors st)). sessionId c' = sessionId c"
    by (metis (no_types, lifting) imageE imageI)
  from inv show ?thesis
    unfolding session_inv_def using same r by (simp) metis
qed

lemma session_inv_delete:
  assumes inv: "session_inv n st"
  shows "session_inv n (st\<lparr>cursors := Map_delete k (cursors st)\<rparr>)"
  using inv Map_delete_values_subset [of k "cursors st"]
  by (auto simp add: session_inv_def Map_delete_distinct)


lemma touchStep_Start_eq:
  "touchStep settings rect Start st touch =
     st\<lparr>sessionIdCounter :=
          snd (createNewCursor (sessionIdCounter st)
                 (fst (normalise settings rect (clientX touch) (clientY touch)))
                 (snd (normalise settings rect (clientX touch) (clientY touch))) (perfNow touch)),
        cursors :=
          Map_set (toString (touch_identifier touch))
            (fst (createNewCursor (sessionIdCounter st)
                 (fst (normalise settings rect (clientX touch) (clientY touch)))
                 (snd (normalise settings rect (clientX touch) (clientY touch))) (perfNow touch)))
            (cursors st)\<rparr>"
  by (simp add: touchStep_def Let_def split: prod.splits)

lemma touchStep_Start_inv:
  "session_inv n st \<Longrightarrow> Suc n \<le> 10000 \<Longrightarrow> session_inv (Suc n) (touchStep settings rect Start st touch)"
  unfolding touchStep_Start_eq by (rule session_inv_acquire)

lemma touchStep_other_inv:
  "session_inv n st \<Longrightarrow> type \<noteq> Start \<Longrightarrow> session_inv n (touchStep settings rect type st touch)"
  by (cases type)
     (auto simp add: touchStep_def Let_def session_inv_update session_inv_delete
           split: prod.splits option.splits)

lemma foldl_touchStep_Start_inv:
  "session_inv n st \<Longrightarrow> n + length ts \<le> 10000
     \<Longrightarrow> session_inv (n + length ts) (foldl (touchStep settings rect Start) st ts)"
proof (induction ts arbitrary: n st)
  case Nil
  then show ?case by simp
next
  case (Cons t ts)
  from Cons.prems have "session_inv (Suc n) (touchStep settings rect Start st t)"
    by (intro touchStep_Start_inv) simp_all
  moreover from Cons.prems have "Suc n + length ts \<le> 10000" by simp
  ultimately have "session_inv (Suc n + length ts)
      (foldl (touchStep settings rect Start) (touchStep settings rect Start st t) ts)"
    by (rule Cons.IH)
  then show ?case by simp
qed

lemma foldl_touchStep_other_inv:
  "session_inv n st \<Longrightarrow> type \<noteq> Start
     \<Longrightarrow> session_inv n (foldl (touchStep settings rect type) st ts)"
  by (induction ts arbitrary: st) (simp_all add: touchStep_other_inv)

lemma processTouch_inv:
  assumes "session_inv n st" and "n + acquisitions_of (TouchEvent type rect ts) \<le> 10000"
  shows "session_inv (n + acquisitions_of (TouchEvent type rect ts))
           (fst (processTouch settings rect type ts st))"
proof (cases "type = Start")
  case True
  with assms show ?thesis
    by (simp add: processTouch_def buildFrame_eq Let_def session_inv_fseq foldl_touchStep_Start_inv)
next
  case False
  then have "acquisitions_of (TouchEvent type rect ts) = 0" by (cases type) simp_all
  with assms False show ?thesis
    by (simp add: processTouch_def buildFrame_eq Let_def session_inv_fseq foldl_touchStep_other_inv)
qed

lemma handleMouseDown_inv:
  assumes "session_inv n st" and "n + acquisitions_of (MouseDown rect button px py now) \<le> 10000"
  shows "session_inv (n + acquisitions_of (MouseDown rect button px py now))
           (fst (handleMouseDown settings rect button px py now st))"
proof (cases "button = 0")
  case False
  with assms show ?thesis by (simp add: handleMouseDown_def)
next
  case True
  let ?p = "normalise settings rect px py"
  let ?n = "createNewCursor (sessionIdCounter st) (fst ?p) (snd ?p) now"
  have "session_inv (Suc n)
          (st\<lparr>sessionIdCounter := snd ?n, cursors := Map_set ''mouse-0'' (fst ?n) (cursors st)\<rparr>)"
    using assms True by (intro session_inv_acquire) simp_all
  then have "session_inv (Suc n)
          (st\<lparr>mouseId := Some ''mouse-0'', sessionIdCounter := snd ?n,
              cursors := Map_set ''mouse-0'' (fst ?n) (cursors st)\<rparr>)"
    by (simp add: session_inv_def)
  then show ?thesis using True
    by (auto simp add: handleMouseDown_def buildFrame_eq Let_def session_inv_fseq split: prod.splits)
qed

lemma handleMouseMove_inv:
  assumes "session_inv n st"
  shows "session_inv n (fst (handleMouseMove settings rect px py now nowPhysics st))"
proof -
  have t: "session_inv n (st\<lparr>lastMouseMoveTime := now\<rparr>)"
    using assms by (simp add: session_inv_times)
  have u: "\<And>k e qx qy. Map_get (cursors st) k = Some e \<Longrightarrow>
     session_inv n (st\<lparr>lastMouseMoveTime := now,
        cursors := Map_set k (updateCursorPhysics e qx qy nowPhysics) (cursors st)\<rparr>)"
    using session_inv_update [OF t] by simp
  show ?thesis using assms t u
    by (auto simp add: handleMouseMove_def buildFrame_eq Let_def session_inv_fseq
             split: prod.splits option.splits)
qed

lemma handleMouseUp_inv:
  assumes "session_inv n st"
  shows "session_inv n (fst (handleMouseUp st))"
proof -
  have "\<And>k. session_inv n (st\<lparr>cursors := Map_delete k (cursors st), mouseId := None\<rparr>)"
    using session_inv_delete [OF assms] by (simp add: session_inv_def)
  then show ?thesis using assms
    by (auto simp add: handleMouseUp_def buildFrame_eq Let_def session_inv_fseq
             split: prod.splits option.splits)
qed

lemma loop_inv:
  assumes "session_inv n st"
  shows "session_inv n (fst (loop settings now st))"
  using assms
  by (auto simp add: loop_def buildFrame_eq Let_def session_inv_def)

lemma step_inv:
  assumes "session_inv n st" and "n + acquisitions_of ev \<le> 10000"
  shows "session_inv (n + acquisitions_of ev) (fst (step settings st ev))"
proof (cases ev)
  case (TouchEvent type rect ts)
  with assms show ?thesis using processTouch_inv by simp
next
  case (MouseDown rect button px py now)
  with assms show ?thesis using handleMouseDown_inv by simp
next
  case (MouseMove rect px py now nowPhysics)
  with assms show ?thesis using handleMouseMove_inv by simp
next
  case MouseUp
  with assms show ?thesis using handleMouseUp_inv by simp
next
  case (Tick now)
  with assms show ?thesis using loop_inv by simp
qed

lemma run_inv:
  "session_inv n st \<Longrightarrow> n + acquisitions evs \<le> 10000
     \<Longrightarrow> session_inv (n + acquisitions evs) (run settings evs st)"
proof (induction evs arbitrary: n st)
  case Nil
  then show ?case by (simp add: run_def acquisitions_def)
next
  case (Cons ev evs)
  from Cons.prems have le: "n + acquisitions_of ev \<le> 10000"
    and le': "(n + acquisitions_of ev) + acquisitions evs \<le> 10000"
    by (simp_all add: acquisitions_def)
  from Cons.prems(1) le have "session_inv (n + acquisitions_of ev) (fst (step settings st ev))"
    by (rule step_inv)
  from Cons.IH [OF this le'] show ?case
    by (simp add: run_def acquisitions_def add.assoc)
qed

lemma session_inv_initial: "session_inv 0 initialState"
  by (simp add: session_inv_def initialState_def Map_values_def)

lemma acquisitions_take: "acquisitions (take k evs) \<le> acquisitions evs"
proof -
  have "acquisitions evs = acquisitions (take k evs) + acquisitions (drop k evs)"
    unfolding acquisitions_def
    by (metis append_take_drop_id map_append sum_list_append)
  then show ?thesis by simp
qed

subsection \<open>Moves without a cursor\<close>

lemma touchStep_Move_absent:
  "Map_get (cursors st) (toString (touch_identifier touch)) = None
     \<Longrightarrow> touchStep settings rect Move st touch = st"
  by (simp add: touchStep_def Let_def split: prod.splits)

lemma foldl_touchStep_Move_absent:
  "\<forall>t \<in> set ts. Map_get (cursors st) (toString (touch_identifier t)) = None
     \<Longrightarrow> foldl (touchStep settings rect Move) st ts = st"
  by (induction ts) (simp_all add: touchStep_Move_absent)

lemma processTouch_cursors:
  "cursors (fst (processTouch settings rect type ts st)) = cursors (foldl (touchStep settings rect type) st ts)"
  "sessionIdCounter (fst (processTouch settings rect type ts st))
     = sessionIdCounter (foldl (touchStep settings rect type) st ts)"
  by (simp_all add: processTouch_def buildFrame_eq Let_def)

section \<open>Cursor physics\<close>

text \<open>
  Claim C1. When the time since the cursor's last sample, \<open>dt = (now - lastTime) / 1000\<close>
  seconds, exceeds \<open>0.001\<close>, \<open>updateCursorPhysics\<close> returns the finite differences: the new
  velocity is the displacement divided by \<open>dt\<close>, and the new acceleration is the length of
  the change of velocity divided by \<open>dt\<close>. In particular a cursor at rest at the origin
  that is sampled one second later at \<open>(1, 0)\<close> gets velocity \<open>(1, 0)\<close> and acceleration \<open>1\<close>.
\<close>

theorem updateCursorPhysics_finite_difference:
  "((now - lastTime c) / 1000 > 0.001 \<longrightarrow>
      (let dt = (now - lastTime c) / 1000;
           r = updateCursorPhysics c newX newY now
       in cur_vx r = (newX - cur_x c) / dt
        \<and> cur_vy r = (newY - cur_y c) / dt
        \<and> cur_a r = sqrt ((cur_vx r - cur_vx c)\<^sup>2 + (cur_vy r - cur_vy c)\<^sup>2) / dt))
   \<and> (let r = updateCursorPhysics
                \<lparr>sessionId = s, cur_x = 0, cur_y = 0, cur_vx = 0, cur_vy = 0, cur_a = a0, lastTime = t\<rparr>
                1 0 (t + 1000)
      in cur_vx r = 1 \<and> cur_vy r = 0 \<and> cur_a r = 1)"
  by (simp add: updateCursorPhysics_def Let_def)

theorem updateCursorPhysics_finite_difference_witness:
  "(500 - lastTime \<lparr>sessionId = 7, cur_x = 1/4, cur_y = 1/2, cur_vx = 0, cur_vy = 0, cur_a = 0, lastTime = 0\<rparr>) / 1000 > (0.001::real)
   \<and> cur_vx (updateCursorPhysics
        \<lparr>sessionId = 7, cur_x = 1/4, cur_y = 1/2, cur_vx = 0, cur_vy = 0, cur_a = 0, lastTime = 0\<rparr> (3/4) (1/2) 500) = 1
   \<and> cur_vy (updateCursorPhysics
        \<lparr>sessionId = 7, cur_x = 1/4, cur_y = 1/2, cur_vx = 0, cur_vy = 0, cur_a = 0, lastTime = 0\<rparr> (3/4) (1/2) 500) = 0
   \<and> cur_a (updateCursorPhysics
        \<lparr>sessionId = 7, cur_x = 1/4, cur_y = 1/2, cur_vx = 0, cur_vy = 0, cur_a = 0, lastTime = 0\<rparr> (3/4) (1/2) 500) = 2"
  using updateCursorPhysics_finite_difference
    [of 500 "\<lparr>sessionId = 7, cur_x = 1/4, cur_y = 1/2, cur_vx = 0, cur_vy = 0, cur_a = 0, lastTime = 0\<rparr>" "3/4" "1/2"]
  by (simp add: Let_def)

text \<open>
  Claim C2. When \<open>dt\<close> is at most \<open>0.001\<close> seconds (zero and negative values included),
  \<open>updateCursorPhysics\<close> returns the cursor with only the position and the time stamp
  replaced: the session identifier, the velocity and the acceleration are those of the
  input, and nothing is divided by \<open>dt\<close>.
\<close>

theorem updateCursorPhysics_small_dt:
  "(now - lastTime c) / 1000 \<le> 0.001 \<Longrightarrow>
     updateCursorPhysics c newX newY now = c\<lparr>cur_x := newX, cur_y := newY, lastTime := now\<rparr>"
  by (simp add: updateCursorPhysics_def Let_def)

theorem updateCursorPhysics_small_dt_witness:
  "(100 - lastTime \<lparr>sessionId = 7, cur_x = 1/4, cur_y = 1/2, cur_vx = 3, cur_vy = 4, cur_a = 5, lastTime = 100\<rparr>) / 1000 \<le> (0.001::real)
   \<and> updateCursorPhysics
        \<lparr>sessionId = 7, cur_x = 1/4, cur_y = 1/2, cur_vx = 3, cur_vy = 4, cur_a = 5, lastTime = 100\<rparr> (3/4) 1 100
      = \<lparr>sessionId = 7, cur_x = 3/4, cur_y = 1, cur_vx = 3, cur_vy = 4, cur_a = 5, lastTime = 100\<rparr>"
  using updateCursorPhysics_small_dt
    [of 100 "\<lparr>sessionId = 7, cur_x = 1/4, cur_y = 1/2, cur_vx = 3, cur_vy = 4, cur_a = 5, lastTime = 100\<rparr>" "3/4" 1]
  by simp

section \<open>Messages\<close>

text \<open>
  Claim C6. For every cursor and every scale argument, the set message is addressed at
  \<open>/tuio/2Dcur\<close> and its arguments are the tag \<open>set\<close>, the floor of the session identifier,
  and the position, velocity and acceleration of the cursor as they are stored; the
  scale does not enter.
\<close>

theorem createSetMessage_arguments:
  "createSetMessage_call cursor scale =
     \<lparr>address = ''/tuio/2Dcur'',
      args = [Str ''set'', Num (of_int \<lfloor>sessionId cursor\<rfloor>), Num (cur_x cursor), Num (cur_y cursor),
              Num (cur_vx cursor), Num (cur_vy cursor), Num (cur_a cursor)]\<rparr>"
  by (simp add: createSetMessage_call_def createSetMessage_def TUIO_PROFILE_def Math_floor_def)

theorem createSetMessage_arguments_witness:
  "createSetMessage_call
     \<lparr>sessionId = 7, cur_x = 1/4, cur_y = 1/2, cur_vx = 3, cur_vy = 4, cur_a = 5, lastTime = 100\<rparr> (Some 1920)
   = \<lparr>address = ''/tuio/2Dcur'',
      args = [Str ''set'', Num 7, Num (1/4), Num (1/2), Num 3, Num 4, Num 5]\<rparr>"
  using createSetMessage_arguments
    [of "\<lparr>sessionId = 7, cur_x = 1/4, cur_y = 1/2, cur_vx = 3, cur_vy = 4, cur_a = 5, lastTime = 100\<rparr>" "Some 1920"]
  by simp

section \<open>Counters\<close>

text \<open>
  Claim C7. An acquisition increments the counter and returns it, the counter going
  back to \<open>0\<close> once it exceeds \<open>10000\<close>. From a fresh counter every identifier returned
  lies between \<open>0\<close> and \<open>10000\<close>, the \<open>n\<close>-th acquisition returns \<open>n\<close> for \<open>n\<close> from \<open>1\<close> to
  \<open>10000\<close>, and the \<open>10001\<close>st returns \<open>0\<close>.
\<close>

theorem getNextSessionId_sequence:
  "getNextSessionId c = (if c + 1 > 10000 then (0, 0) else (c + 1, c + 1))
   \<and> (0 \<le> nth_acquired n 0 \<and> nth_acquired n 0 \<le> 10000)
   \<and> (1 \<le> n \<and> n \<le> 10000 \<longrightarrow> nth_acquired n 0 = int n)
   \<and> nth_acquired 10001 0 = 0"
proof -
  have a: "getNextSessionId c = (if c + 1 > 10000 then (0, 0) else (c + 1, c + 1))"
    by (simp add: getNextSessionId_def Let_def)
  have b: "0 \<le> nth_acquired n 0 \<and> nth_acquired n 0 \<le> 10000"
    using counter_after_range [of "n - 1"] by (simp add: nth_acquired_def getNextSessionId_def Let_def)
  have c: "1 \<le> n \<and> n \<le> 10000 \<longrightarrow> nth_acquired n 0 = int n"
    by (auto simp add: nth_acquired_def getNextSessionId_def Let_def counter_after_eq)
  have d: "nth_acquired 10001 0 = 0"
    by (simp add: nth_acquired_def getNextSessionId_def Let_def counter_after_eq)
  show ?thesis using a b c d by blast
qed

theorem getNextSessionId_sequence_witness:
  "(1::nat) \<le> 10000 \<and> (10000::nat) \<le> 10000 \<and> nth_acquired 10000 0 = 10000
   \<and> getNextSessionId 10000 = (0, 0) \<and> getNextSessionId 41 = (42, 42)"
  using getNextSessionId_sequence [of 10000 10000] getNextSessionId_sequence [of 41 0]
  by simp

text \<open>
  Claim C8. A call of the fseq constructor on a non-negative counter advances it by one
  modulo \<open>2^31\<close> and emits the new value. Starting from \<open>0\<close>, every call advances the
  counter by one modulo \<open>2^31\<close>, no emitted value is negative, and the \<open>2^31\<close>-th call
  emits \<open>0\<close>.
\<close>

theorem createFseqMessage_wraps:
  "(0 \<le> f \<longrightarrow> createFseqMessage f =
       (\<lparr>address = ''/tuio/2Dcur'', args = [Str ''fseq'', Num (of_int ((f + 1) mod 2 ^ 31))]\<rparr>,
        (f + 1) mod 2 ^ 31))
   \<and> fseq_after (Suc n) 0 = (fseq_after n 0 + 1) mod 2 ^ 31
   \<and> 0 \<le> fseq_after n 0
   \<and> fseq_after (2 ^ 31) 0 = 0"
proof -
  have a: "0 \<le> f \<longrightarrow> createFseqMessage f =
       (\<lparr>address = ''/tuio/2Dcur'', args = [Str ''fseq'', Num (of_int ((f + 1) mod 2 ^ 31))]\<rparr>,
        (f + 1) mod 2 ^ 31)"
    by (simp add: createFseqMessage_def Let_def smod_nonneg TUIO_PROFILE_def)
  have nn: "0 \<le> fseq_after n 0" by (simp add: fseq_after_eq)
  have b: "fseq_after (Suc n) 0 = (fseq_after n 0 + 1) mod 2 ^ 31"
    using nn by (simp add: fseq_step)
  have c: "fseq_after (2 ^ 31) 0 = 0"
    by (simp add: fseq_after_eq)
  show ?thesis using a b nn c by blast
qed

theorem createFseqMessage_wraps_witness:
  "(0::int) \<le> 2147483647
   \<and> createFseqMessage 2147483647 = (\<lparr>address = ''/tuio/2Dcur'', args = [Str ''fseq'', Num 0]\<rparr>, 0)
   \<and> createFseqMessage 5 = (\<lparr>address = ''/tuio/2Dcur'', args = [Str ''fseq'', Num 6]\<rparr>, 6)"
  using createFseqMessage_wraps [of 2147483647 0] createFseqMessage_wraps [of 5 0]
  by simp

section \<open>Packets\<close>

text \<open>
  Claim C5, as the code has it. With \<open>fullBundle\<close> set, the packet is the envelope that
  carries the time stamp and the messages in order. Without it, a single message is
  the packet itself, with no \<open>packets\<close> wrapper, and a list of more than one message
  is wrapped in an object that carries the flag \<open>bundle\<close> and the messages in order; that
  object has no time stamp.
\<close>

theorem generatePacket_cases:
  "(fullBundle settings \<longrightarrow>
      generatePacket t ms settings =
        JObject [(''timeTag'', JNumber (of_int t)), (''packets'', JArray (map message_json ms))])
   \<and> (\<not> fullBundle settings \<longrightarrow>
        generatePacket t [m] settings = message_json m
        \<and> \<not> has_field ''packets'' (generatePacket t [m] settings))
   \<and> (\<not> fullBundle settings \<and> length ms > 1 \<longrightarrow>
        generatePacket t ms settings =
          JObject [(''bundle'', JBool True), (''packets'', JArray (map message_json ms))])"
  by (simp add: generatePacket_def message_json_def)

theorem generatePacket_cases_witness:
  "fullBundle DEFAULT_SETTINGS
   \<and> generatePacket 1700000000000 [createSourceMessage, createAliveMessage []] DEFAULT_SETTINGS =
        JObject [(''timeTag'', JNumber 1700000000000),
                 (''packets'', JArray [message_json createSourceMessage, message_json (createAliveMessage [])])]
   \<and> \<not> fullBundle (DEFAULT_SETTINGS\<lparr>fullBundle := False\<rparr>)
   \<and> generatePacket 1700000000000 [createSourceMessage] (DEFAULT_SETTINGS\<lparr>fullBundle := False\<rparr>) =
        JObject [(''address'', JString ''/tuio/2Dcur''),
                 (''args'', JArray [JString ''source'', JString ''WebTUIO@webclient''])]
   \<and> length [createSourceMessage, createAliveMessage []] > 1
   \<and> generatePacket 1700000000000 [createSourceMessage, createAliveMessage []] (DEFAULT_SETTINGS\<lparr>fullBundle := False\<rparr>) =
        JObject [(''bundle'', JBool True),
                 (''packets'', JArray [message_json createSourceMessage, message_json (createAliveMessage [])])]"
  using generatePacket_cases [of DEFAULT_SETTINGS 1700000000000 "[createSourceMessage, createAliveMessage []]" createSourceMessage]
        generatePacket_cases [of "DEFAULT_SETTINGS\<lparr>fullBundle := False\<rparr>" 1700000000000
           "[createSourceMessage, createAliveMessage []]" createSourceMessage]
  by (simp add: DEFAULT_SETTINGS_def message_json_def createSourceMessage_def TUIO_PROFILE_def SOURCE_NAME_def)

text \<open>
  Claim C5 as it is worded lets the list of two messages fall back to the envelope with
  the time stamp. The packet for two messages without \<open>fullBundle\<close> is not that envelope
  and has no \<open>timeTag\<close> field.
\<close>

theorem generatePacket_fallback_counterexample:
  "generatePacket 1700000000000 [createSourceMessage, createAliveMessage []]
       (DEFAULT_SETTINGS\<lparr>fullBundle := False\<rparr>)
     \<noteq> spec_bundle_envelope 1700000000000 [createSourceMessage, createAliveMessage []]
   \<and> \<not> has_field ''timeTag''
         (generatePacket 1700000000000 [createSourceMessage, createAliveMessage []]
            (DEFAULT_SETTINGS\<lparr>fullBundle := False\<rparr>))"
  by (simp add: generatePacket_def spec_bundle_envelope_def DEFAULT_SETTINGS_def)

text \<open>
  Claim C10. Without \<open>fullBundle\<close>, a list of two or more messages yields the object with
  \<open>bundle\<close> true and \<open>packets\<close> the messages in order, and no \<open>timeTag\<close> field; with
  \<open>fullBundle\<close> the packet has a \<open>timeTag\<close> field and no \<open>bundle\<close> field.
\<close>

theorem generatePacket_fallback_shape:
  "(\<not> fullBundle settings \<and> 2 \<le> length ms \<longrightarrow>
      generatePacket t ms settings =
        JObject [(''bundle'', JBool True), (''packets'', JArray (map message_json ms))]
      \<and> \<not> has_field ''timeTag'' (generatePacket t ms settings))
   \<and> (fullBundle settings \<longrightarrow>
        has_field ''timeTag'' (generatePacket t ms settings)
        \<and> \<not> has_field ''bundle'' (generatePacket t ms settings))"
  by (simp add: generatePacket_def)

theorem generatePacket_fallback_shape_witness:
  "\<not> fullBundle (DEFAULT_SETTINGS\<lparr>fullBundle := False\<rparr>)
   \<and> 2 \<le> length [createSourceMessage, createAliveMessage [1], fst (createFseqMessage 0)]
   \<and> generatePacket 5 [createSourceMessage, createAliveMessage [1], fst (createFseqMessage 0)]
        (DEFAULT_SETTINGS\<lparr>fullBundle := False\<rparr>) =
        JObject [(''bundle'', JBool True),
                 (''packets'', JArray [message_json createSourceMessage, message_json (createAliveMessage [1]),
                                       message_json (fst (createFseqMessage 0))])]
   \<and> fullBundle DEFAULT_SETTINGS
   \<and> has_field ''timeTag'' (generatePacket 5 [createSourceMessage] DEFAULT_SETTINGS)
   \<and> \<not> has_field ''bundle'' (generatePacket 5 [createSourceMessage] DEFAULT_SETTINGS)"
  using generatePacket_fallback_shape [of "DEFAULT_SETTINGS\<lparr>fullBundle := False\<rparr>"
           "[createSourceMessage, createAliveMessage [1], fst (createFseqMessage 0)]" 5]
        generatePacket_fallback_shape [of DEFAULT_SETTINGS "[createSourceMessage]" 5]
  by (simp add: DEFAULT_SETTINGS_def)

section \<open>The router\<close>

text \<open>
  Claim C3. From the initial state, along every sequence of events that acquires at most
  \<open>10000\<close> session identifiers, the cursors of the map carry pairwise different session
  identifiers after every prefix of the sequence.
\<close>

theorem session_ids_distinct:
  assumes "acquisitions evs \<le> 10000"
  shows "distinct (map sessionId (Map_values (cursors (run settings (take k evs) initialState))))"
proof -
  have "0 + acquisitions (take k evs) \<le> 10000"
    using assms acquisitions_take [of k evs] by simp
  from run_inv [OF session_inv_initial this]
  show ?thesis by (simp add: session_inv_def)
qed

theorem session_ids_distinct_witness:
  "acquisitions
     [TouchEvent Start \<lparr>rect_left = 0, rect_top = 0, rect_width = 100, rect_height = 100\<rparr>
        [\<lparr>touch_identifier = 0, clientX = 20, clientY = 30, perfNow = 1000\<rparr>,
         \<lparr>touch_identifier = 1, clientX = 60, clientY = 70, perfNow = 1000\<rparr>],
      MouseDown \<lparr>rect_left = 0, rect_top = 0, rect_width = 100, rect_height = 100\<rparr> 0 50 50 1200,
      TouchEvent End \<lparr>rect_left = 0, rect_top = 0, rect_width = 100, rect_height = 100\<rparr>
        [\<lparr>touch_identifier = 0, clientX = 20, clientY = 30, perfNow = 1500\<rparr>]] \<le> 10000
   \<and> distinct (map sessionId (Map_values (cursors (run DEFAULT_SETTINGS (take 2
     [TouchEvent Start \<lparr>rect_left = 0, rect_top = 0, rect_width = 100, rect_height = 100\<rparr>
        [\<lparr>touch_identifier = 0, clientX = 20, clientY = 30, perfNow = 1000\<rparr>,
         \<lparr>touch_identifier = 1, clientX = 60, clientY = 70, perfNow = 1000\<rparr>],
      MouseDown \<lparr>rect_left = 0, rect_top = 0, rect_width = 100, rect_height = 100\<rparr> 0 50 50 1200,
      TouchEvent End \<lparr>rect_left = 0, rect_top = 0, rect_width = 100, rect_height = 100\<rparr>
        [\<lparr>touch_identifier = 0, clientX = 20, clientY = 30, perfNow = 1500\<rparr>]]) initialState))))
   \<and> map sessionId (Map_values (cursors (run DEFAULT_SETTINGS (take 2
     [TouchEvent Start \<lparr>rect_left = 0, rect_top = 0, rect_width = 100, rect_height = 100\<rparr>
        [\<lparr>touch_identifier = 0, clientX = 20, clientY = 30, perfNow = 1000\<rparr>,
         \<lparr>touch_identifier = 1, clientX = 60, clientY = 70, perfNow = 1000\<rparr>],
      MouseDown \<lparr>rect_left = 0, rect_top = 0, rect_width = 100, rect_height = 100\<rparr> 0 50 50 1200,
      TouchEvent End \<lparr>rect_left = 0, rect_top = 0, rect_width = 100, rect_height = 100\<rparr>
        [\<lparr>touch_identifier = 0, clientX = 20, clientY = 30, perfNow = 1500\<rparr>]]) initialState))) = [1, 2, 3]"
proof -
  let ?evs = "[TouchEvent Start \<lparr>rect_left = 0, rect_top = 0, rect_width = 100, rect_height = 100\<rparr>
        [\<lparr>touch_identifier = 0, clientX = 20, clientY = 30, perfNow = 1000\<rparr>,
         \<lparr>touch_identifier = 1, clientX = 60, clientY = 70, perfNow = 1000\<rparr>],
      MouseDown \<lparr>rect_left = 0, rect_top = 0, rect_width = 100, rect_height = 100\<rparr> 0 50 50 1200,
      TouchEvent End \<lparr>rect_left = 0, rect_top = 0, rect_width = 100, rect_height = 100\<rparr>
        [\<lparr>touch_identifier = 0, clientX = 20, clientY = 30, perfNow = 1500\<rparr>]]"
  have h: "acquisitions ?evs \<le> 10000" by (simp add: acquisitions_def)
  have e: "map sessionId (Map_values (cursors (run DEFAULT_SETTINGS (take 2 ?evs) initialState))) = [1, 2, 3]"
    by (simp add: run_def processTouch_def handleMouseDown_def touchStep_def buildFrame_eq
        createNewCursor_def getNextSessionId_def normalise_def toString_def digits.simps
        initialState_def DEFAULT_SETTINGS_def Map_values_def Let_def)
  from session_ids_distinct [OF h, of DEFAULT_SETTINGS 2] h e show ?thesis by blast
qed

text \<open>
  Claim C4. Every frame a handler builds, on a touch event of any type, a mouse event or
  the heartbeat, is the source message, then one set message per cursor of the map in
  iteration order, then one alive message whose arguments after the tag are the session
  identifiers of exactly those cursors in the same order, then one fseq message. With
  an empty map the frame is the source message, an alive message without identifiers
  and the fseq message. A touch event always builds a frame; a mouse-down builds one
  when the button is the left one, a mouse-move when the mouse identifier is set, the
  throttle interval has passed and the identifier has a cursor, a mouse-up when the
  mouse identifier is set, and the heartbeat when periodic updates are on, the map is
  not empty and its interval has passed.
\<close>

theorem frame_layout:
  "(step settings st ev = (st', Some frame) \<longrightarrow>
      frame =
        [\<lparr>address = ''/tuio/2Dcur'', args = [Str ''source'', Str ''WebTUIO@webclient'']\<rparr>]
        @ map (\<lambda>c. \<lparr>address = ''/tuio/2Dcur'',
                      args = [Str ''set'', Num (of_int \<lfloor>sessionId c\<rfloor>), Num (cur_x c), Num (cur_y c),
                              Num (cur_vx c), Num (cur_vy c), Num (cur_a c)]\<rparr>)
              (map snd (cursors st'))
        @ [\<lparr>address = ''/tuio/2Dcur'',
            args = Str ''alive'' # map (\<lambda>c. Num (sessionId c)) (map snd (cursors st'))\<rparr>]
        @ [\<lparr>address = ''/tuio/2Dcur'', args = [Str ''fseq'', Num (of_int (fseq st'))]\<rparr>])
   \<and> (step settings st ev = (st', Some frame) \<and> cursors st' = [] \<longrightarrow>
      frame =
        [\<lparr>address = ''/tuio/2Dcur'', args = [Str ''source'', Str ''WebTUIO@webclient'']\<rparr>,
         \<lparr>address = ''/tuio/2Dcur'', args = [Str ''alive'']\<rparr>,
         \<lparr>address = ''/tuio/2Dcur'', args = [Str ''fseq'', Num (of_int (fseq st'))]\<rparr>])
   \<and> snd (step settings st (TouchEvent type rect ts)) \<noteq> None
   \<and> (snd (step settings st (MouseDown rect button px py now)) \<noteq> None \<longleftrightarrow> button = 0)
   \<and> (snd (step settings st (MouseMove rect px py now nowPhysics)) \<noteq> None \<longleftrightarrow>
        (\<exists>idStr. mouseId st = Some idStr \<and> idStr \<noteq> [] \<and> 16 \<le> now - lastMouseMoveTime st
                 \<and> Map_get (cursors st) idStr \<noteq> None))
   \<and> (snd (step settings st MouseUp) \<noteq> None \<longleftrightarrow> (\<exists>idStr. mouseId st = Some idStr \<and> idStr \<noteq> []))
   \<and> (snd (step settings st (Tick now)) \<noteq> None \<longleftrightarrow>
        periodicUpdates settings \<and> cursors st \<noteq> [] \<and> 33 \<le> now - lastPeriodicUpdate st)"
proof -
  have a: "step settings st ev = (st', Some frame) \<Longrightarrow> frame = frame_of st'"
    by (rule step_frame)
  have c: "frame_of st' =
        [\<lparr>address = ''/tuio/2Dcur'', args = [Str ''source'', Str ''WebTUIO@webclient'']\<rparr>]
        @ map (\<lambda>c. \<lparr>address = ''/tuio/2Dcur'',
                      args = [Str ''set'', Num (of_int \<lfloor>sessionId c\<rfloor>), Num (cur_x c), Num (cur_y c),
                              Num (cur_vx c), Num (cur_vy c), Num (cur_a c)]\<rparr>)
              (map snd (cursors st'))
        @ [\<lparr>address = ''/tuio/2Dcur'',
            args = Str ''alive'' # map (\<lambda>c. Num (sessionId c)) (map snd (cursors st'))\<rparr>]
        @ [\<lparr>address = ''/tuio/2Dcur'', args = [Str ''fseq'', Num (of_int (fseq st'))]\<rparr>]"
    by (simp add: frame_of_def Map_values_def createSourceMessage_def createAliveMessage_def
        createSetMessage_def Math_floor_def TUIO_PROFILE_def SOURCE_NAME_def comp_def)
  have b: "cursors st' = [] \<Longrightarrow> frame_of st' =
        [\<lparr>address = ''/tuio/2Dcur'', args = [Str ''source'', Str ''WebTUIO@webclient'']\<rparr>,
         \<lparr>address = ''/tuio/2Dcur'', args = [Str ''alive'']\<rparr>,
         \<lparr>address = ''/tuio/2Dcur'', args = [Str ''fseq'', Num (of_int (fseq st'))]\<rparr>]"
    unfolding c by simp
  have d: "snd (step settings st (TouchEvent type rect ts)) \<noteq> None"
    by (simp add: processTouch_def Let_def split: prod.splits)
  have e: "snd (step settings st (MouseDown rect button px py now)) \<noteq> None \<longleftrightarrow> button = 0"
    by (simp add: handleMouseDown_def Let_def split: prod.splits)
  have f: "snd (step settings st (MouseMove rect px py now nowPhysics)) \<noteq> None \<longleftrightarrow>
        (\<exists>idStr. mouseId st = Some idStr \<and> idStr \<noteq> [] \<and> 16 \<le> now - lastMouseMoveTime st
                 \<and> Map_get (cursors st) idStr \<noteq> None)"
    by (auto simp add: handleMouseMove_def MOUSE_MOVE_THROTTLE_def Let_def
             split: prod.splits option.splits)
  have g: "snd (step settings st MouseUp) \<noteq> None \<longleftrightarrow> (\<exists>idStr. mouseId st = Some idStr \<and> idStr \<noteq> [])"
    by (auto simp add: handleMouseUp_def Let_def split: prod.splits option.splits)
  have h: "snd (step settings st (Tick now)) \<noteq> None \<longleftrightarrow>
        periodicUpdates settings \<and> cursors st \<noteq> [] \<and> 33 \<le> now - lastPeriodicUpdate st"
    by (auto simp add: loop_def PERIODIC_UPDATE_INTERVAL_def Let_def split: prod.splits)
  have ab: "step settings st ev = (st', Some frame) \<and> cursors st' = [] \<longrightarrow>
      frame =
        [\<lparr>address = ''/tuio/2Dcur'', args = [Str ''source'', Str ''WebTUIO@webclient'']\<rparr>,
         \<lparr>address = ''/tuio/2Dcur'', args = [Str ''alive'']\<rparr>,
         \<lparr>address = ''/tuio/2Dcur'', args = [Str ''fseq'', Num (of_int (fseq st'))]\<rparr>]"
    using a b by blast
  have ac: "step settings st ev = (st', Some frame) \<longrightarrow>
      frame =
        [\<lparr>address = ''/tuio/2Dcur'', args = [Str ''source'', Str ''WebTUIO@webclient'']\<rparr>]
        @ map (\<lambda>c. \<lparr>address = ''/tuio/2Dcur'',
                      args = [Str ''set'', Num (of_int \<lfloor>sessionId c\<rfloor>), Num (cur_x c), Num (cur_y c),
                              Num (cur_vx c), Num (cur_vy c), Num (cur_a c)]\<rparr>)
              (map snd (cursors st'))
        @ [\<lparr>address = ''/tuio/2Dcur'',
            args = Str ''alive'' # map (\<lambda>c. Num (sessionId c)) (map snd (cursors st'))\<rparr>]
        @ [\<lparr>address = ''/tuio/2Dcur'', args = [Str ''fseq'', Num (of_int (fseq st'))]\<rparr>]"
    using a c by metis
  from ac ab d e f g h show ?thesis by (intro conjI)
qed


theorem frame_layout_witness:
  "step DEFAULT_SETTINGS initialState
      (TouchEvent Start \<lparr>rect_left = 0, rect_top = 0, rect_width = 100, rect_height = 100\<rparr>
         [\<lparr>touch_identifier = 0, clientX = 20, clientY = 30, perfNow = 1000\<rparr>])
    = (initialState\<lparr>sessionIdCounter := 1, fseq := 1,
          cursors := [(''0'', \<lparr>sessionId = 1, cur_x = 1/5, cur_y = 3/10, cur_vx = 0, cur_vy = 0, cur_a = 0, lastTime = 1000\<rparr>)]\<rparr>,
       Some [\<lparr>address = ''/tuio/2Dcur'', args = [Str ''source'', Str ''WebTUIO@webclient'']\<rparr>,
         \<lparr>address = ''/tuio/2Dcur'', args = [Str ''set'', Num 1, Num (1/5), Num (3/10), Num 0, Num 0, Num 0]\<rparr>,
         \<lparr>address = ''/tuio/2Dcur'', args = [Str ''alive'', Num 1]\<rparr>,
         \<lparr>address = ''/tuio/2Dcur'', args = [Str ''fseq'', Num 1]\<rparr>])
   \<and> step DEFAULT_SETTINGS initialState
      (TouchEvent End \<lparr>rect_left = 0, rect_top = 0, rect_width = 100, rect_height = 100\<rparr>
         [\<lparr>touch_identifier = 0, clientX = 20, clientY = 30, perfNow = 1000\<rparr>])
    = (initialState\<lparr>fseq := 1\<rparr>,
       Some [\<lparr>address = ''/tuio/2Dcur'', args = [Str ''source'', Str ''WebTUIO@webclient'']\<rparr>,
         \<lparr>address = ''/tuio/2Dcur'', args = [Str ''alive'']\<rparr>,
         \<lparr>address = ''/tuio/2Dcur'', args = [Str ''fseq'', Num 1]\<rparr>])
   \<and> cursors (initialState\<lparr>fseq := 1\<rparr>) = []
   \<and> step DEFAULT_SETTINGS
        (initialState\<lparr>sessionIdCounter := 2, fseq := 5,
          cursors := [(''0'', \<lparr>sessionId = 1, cur_x = 1/5, cur_y = 3/10, cur_vx = 0, cur_vy = 0, cur_a = 0, lastTime = 1000\<rparr>),
                      (''mouse-0'', \<lparr>sessionId = 2, cur_x = 1/2, cur_y = 1/2, cur_vx = 1, cur_vy = 2, cur_a = 3, lastTime = 1200\<rparr>)]\<rparr>)
        (Tick 2000)
    = (initialState\<lparr>sessionIdCounter := 2, fseq := 6,
          cursors := [(''0'', \<lparr>sessionId = 1, cur_x = 1/5, cur_y = 3/10, cur_vx = 0, cur_vy = 0, cur_a = 0, lastTime = 1000\<rparr>),
                      (''mouse-0'', \<lparr>sessionId = 2, cur_x = 1/2, cur_y = 1/2, cur_vx = 1, cur_vy = 2, cur_a = 3, lastTime = 1200\<rparr>)],
          lastPeriodicUpdate := 2000\<rparr>,
       Some [\<lparr>address = ''/tuio/2Dcur'', args = [Str ''source'', Str ''WebTUIO@webclient'']\<rparr>,
         \<lparr>address = ''/tuio/2Dcur'', args = [Str ''set'', Num 1, Num (1/5), Num (3/10), Num 0, Num 0, Num 0]\<rparr>,
         \<lparr>address = ''/tuio/2Dcur'', args = [Str ''set'', Num 2, Num (1/2), Num (1/2), Num 1, Num 2, Num 3]\<rparr>,
         \<lparr>address = ''/tuio/2Dcur'', args = [Str ''alive'', Num 1, Num 2]\<rparr>,
         \<lparr>address = ''/tuio/2Dcur'', args = [Str ''fseq'', Num 6]\<rparr>])
   \<and> snd (step DEFAULT_SETTINGS initialState
        (MouseDown \<lparr>rect_left = 0, rect_top = 0, rect_width = 100, rect_height = 100\<rparr> 0 50 50 1200)) \<noteq> None
   \<and> snd (step DEFAULT_SETTINGS (initialState\<lparr>mouseId := Some ''mouse-0''\<rparr>) MouseUp) \<noteq> None
   \<and> snd (step DEFAULT_SETTINGS initialState MouseUp) = None
   \<and> snd (step DEFAULT_SETTINGS initialState (Tick 2000)) = None"
proof -
  let ?rect = "\<lparr>rect_left = 0, rect_top = 0, rect_width = 100, rect_height = 100\<rparr>"
  let ?touch = "\<lparr>touch_identifier = 0, clientX = 20, clientY = 30, perfNow = 1000\<rparr>"
  let ?c1 = "\<lparr>sessionId = 1, cur_x = 1/5, cur_y = 3/10, cur_vx = 0, cur_vy = 0, cur_a = 0, lastTime = 1000\<rparr>"
  let ?c2 = "\<lparr>sessionId = 2, cur_x = 1/2, cur_y = 1/2, cur_vx = 1, cur_vy = 2, cur_a = 3, lastTime = 1200\<rparr>"
  let ?st1 = "initialState\<lparr>sessionIdCounter := 1, fseq := 1, cursors := [(''0'', ?c1)]\<rparr>"
  let ?st2 = "initialState\<lparr>fseq := 1\<rparr>"
  let ?st3 = "initialState\<lparr>sessionIdCounter := 2, fseq := 5, cursors := [(''0'', ?c1), (''mouse-0'', ?c2)]\<rparr>"
  let ?st4 = "initialState\<lparr>sessionIdCounter := 2, fseq := 6, cursors := [(''0'', ?c1), (''mouse-0'', ?c2)],
                lastPeriodicUpdate := 2000\<rparr>"
  let ?src = "\<lparr>address = ''/tuio/2Dcur'', args = [Str ''source'', Str ''WebTUIO@webclient'']\<rparr>"
  let ?f1 = "[?src,
         \<lparr>address = ''/tuio/2Dcur'', args = [Str ''set'', Num 1, Num (1/5), Num (3/10), Num 0, Num 0, Num 0]\<rparr>,
         \<lparr>address = ''/tuio/2Dcur'', args = [Str ''alive'', Num 1]\<rparr>,
         \<lparr>address = ''/tuio/2Dcur'', args = [Str ''fseq'', Num 1]\<rparr>]"
  let ?f2 = "[?src,
         \<lparr>address = ''/tuio/2Dcur'', args = [Str ''alive'']\<rparr>,
         \<lparr>address = ''/tuio/2Dcur'', args = [Str ''fseq'', Num 1]\<rparr>]"
  let ?f4 = "[?src,
         \<lparr>address = ''/tuio/2Dcur'', args = [Str ''set'', Num 1, Num (1/5), Num (3/10), Num 0, Num 0, Num 0]\<rparr>,
         \<lparr>address = ''/tuio/2Dcur'', args = [Str ''set'', Num 2, Num (1/2), Num (1/2), Num 1, Num 2, Num 3]\<rparr>,
         \<lparr>address = ''/tuio/2Dcur'', args = [Str ''alive'', Num 1, Num 2]\<rparr>,
         \<lparr>address = ''/tuio/2Dcur'', args = [Str ''fseq'', Num 6]\<rparr>]"
  have s1: "step DEFAULT_SETTINGS initialState (TouchEvent Start ?rect [?touch]) = (?st1, Some ?f1)"
    by (simp add: processTouch_def touchStep_def buildFrame_eq createFseqMessage_def smod_nonneg
        createNewCursor_def getNextSessionId_def normalise_def toString_def digits.simps
        Map_values_def createSourceMessage_def createSetMessage_def Math_floor_def
        createAliveMessage_def TUIO_PROFILE_def SOURCE_NAME_def
        initialState_def DEFAULT_SETTINGS_def Let_def)
  have s2: "step DEFAULT_SETTINGS initialState (TouchEvent End ?rect [?touch]) = (?st2, Some ?f2)"
    by (simp add: processTouch_def touchStep_def buildFrame_eq createFseqMessage_def smod_nonneg
        normalise_def toString_def digits.simps Map_delete_def Map_values_def
        createSourceMessage_def createAliveMessage_def TUIO_PROFILE_def SOURCE_NAME_def
        initialState_def DEFAULT_SETTINGS_def Let_def)
  have c2: "cursors ?st2 = []" by (simp add: initialState_def)
  have s3: "step DEFAULT_SETTINGS ?st3 (Tick 2000) = (?st4, Some ?f4)"
    by (simp add: loop_def PERIODIC_UPDATE_INTERVAL_def buildFrame_eq createFseqMessage_def smod_nonneg
        Map_values_def createSourceMessage_def createSetMessage_def Math_floor_def
        createAliveMessage_def TUIO_PROFILE_def SOURCE_NAME_def
        initialState_def DEFAULT_SETTINGS_def Let_def)
  have m1: "mouseId (initialState\<lparr>mouseId := Some ''mouse-0''\<rparr>) = Some ''mouse-0'' \<and> ''mouse-0'' \<noteq> []"
    by simp
  have m2: "mouseId initialState = None" by (simp add: initialState_def)
  have t2: "cursors initialState = []" by (simp add: initialState_def)
  from frame_layout [where settings = DEFAULT_SETTINGS and st = initialState
         and ev = "TouchEvent Start ?rect [?touch]" and st' = ?st1 and frame = ?f1
         and rect = ?rect and button = 0 and px = 50 and py = 50 and now = 1200]
       frame_layout [where settings = DEFAULT_SETTINGS and st = initialState
         and ev = "TouchEvent End ?rect [?touch]" and st' = ?st2 and frame = ?f2 and now = 2000]
       frame_layout [where settings = DEFAULT_SETTINGS and st = ?st3
         and ev = "Tick 2000" and st' = ?st4 and frame = ?f4]
       frame_layout [where settings = DEFAULT_SETTINGS and st = "initialState\<lparr>mouseId := Some ''mouse-0''\<rparr>"]
       s1 s2 c2 s3 m1 m2 t2
  show ?thesis by (simp del: step.simps)
qed

text \<open>
  Claim C9. A move for an identifier that has no cursor in the map changes nothing: the
  step for such a touch returns the state as it is, a touch move whose touches are all
  absent leaves the map and the session counter as they are, and so does a mouse move
  whose identifier is absent, which builds no frame either. In particular, after a start
  and an end for one identifier, a move for it leaves the map and the counter unchanged
  and the identifier absent.
\<close>

theorem move_absent_noop:
  "(Map_get (cursors st) (toString (touch_identifier touch)) = None \<longrightarrow>
      touchStep settings rect Move st touch = st)
   \<and> ((\<forall>t \<in> set ts. Map_get (cursors st) (toString (touch_identifier t)) = None) \<longrightarrow>
        cursors (fst (processTouch settings rect Move ts st)) = cursors st
        \<and> sessionIdCounter (fst (processTouch settings rect Move ts st)) = sessionIdCounter st)
   \<and> (mouseId st = Some idStr \<and> Map_get (cursors st) idStr = None \<longrightarrow>
        cursors (fst (handleMouseMove settings rect px py now nowPhysics st)) = cursors st
        \<and> sessionIdCounter (fst (handleMouseMove settings rect px py now nowPhysics st)) = sessionIdCounter st
        \<and> snd (handleMouseMove settings rect px py now nowPhysics st) = None)
   \<and> (touch_identifier tb = touch_identifier ta \<and> touch_identifier tc = touch_identifier ta \<longrightarrow>
        (let st1 = fst (processTouch settings r1 Start [ta] st);
             st2 = fst (processTouch settings r2 End [tb] st1);
             st3 = fst (processTouch settings r3 Move [tc] st2)
         in cursors st3 = cursors st2
            \<and> sessionIdCounter st3 = sessionIdCounter st2
            \<and> Map_get (cursors st3) (toString (touch_identifier ta)) = None))"
proof -
  have a: "Map_get (cursors st) (toString (touch_identifier touch)) = None \<longrightarrow>
      touchStep settings rect Move st touch = st"
    by (simp add: touchStep_Move_absent)
  have b: "(\<forall>t \<in> set ts. Map_get (cursors st) (toString (touch_identifier t)) = None) \<longrightarrow>
        cursors (fst (processTouch settings rect Move ts st)) = cursors st
        \<and> sessionIdCounter (fst (processTouch settings rect Move ts st)) = sessionIdCounter st"
    by (simp add: processTouch_cursors foldl_touchStep_Move_absent)
  have c: "mouseId st = Some idStr \<and> Map_get (cursors st) idStr = None \<longrightarrow>
        cursors (fst (handleMouseMove settings rect px py now nowPhysics st)) = cursors st
        \<and> sessionIdCounter (fst (handleMouseMove settings rect px py now nowPhysics st)) = sessionIdCounter st
        \<and> snd (handleMouseMove settings rect px py now nowPhysics st) = None"
    by (simp add: handleMouseMove_def Let_def split: prod.splits)
  have d: "touch_identifier tb = touch_identifier ta \<and> touch_identifier tc = touch_identifier ta \<longrightarrow>
        (let st1 = fst (processTouch settings r1 Start [ta] st);
             st2 = fst (processTouch settings r2 End [tb] st1);
             st3 = fst (processTouch settings r3 Move [tc] st2)
         in cursors st3 = cursors st2
            \<and> sessionIdCounter st3 = sessionIdCounter st2
            \<and> Map_get (cursors st3) (toString (touch_identifier ta)) = None)"
  proof
    assume ids: "touch_identifier tb = touch_identifier ta \<and> touch_identifier tc = touch_identifier ta"
    let ?st1 = "fst (processTouch settings r1 Start [ta] st)"
    let ?st2 = "fst (processTouch settings r2 End [tb] ?st1)"
    let ?st3 = "fst (processTouch settings r3 Move [tc] ?st2)"
    have "cursors ?st2 = Map_delete (toString (touch_identifier ta)) (cursors ?st1)"
      using ids by (simp add: processTouch_cursors touchStep_def Let_def split: prod.splits)
    then have absent: "Map_get (cursors ?st2) (toString (touch_identifier tc)) = None"
      using ids by (simp add: Map_get_delete)
    then have "foldl (touchStep settings r3 Move) ?st2 [tc] = ?st2"
      by (simp add: touchStep_Move_absent)
    then have "cursors ?st3 = cursors ?st2" "sessionIdCounter ?st3 = sessionIdCounter ?st2"
      by (simp_all only: processTouch_cursors)
    then show "let st1 = fst (processTouch settings r1 Start [ta] st);
             st2 = fst (processTouch settings r2 End [tb] st1);
             st3 = fst (processTouch settings r3 Move [tc] st2)
         in cursors st3 = cursors st2
            \<and> sessionIdCounter st3 = sessionIdCounter st2
            \<and> Map_get (cursors st3) (toString (touch_identifier ta)) = None"
      using absent ids by (simp add: Let_def)
  qed
  show ?thesis using a b c d by blast
qed

theorem move_absent_noop_witness:
  "Map_get (cursors initialState)
      (toString (touch_identifier \<lparr>touch_identifier = 7, clientX = 50, clientY = 50, perfNow = 3000\<rparr>)) = None
   \<and> touchStep DEFAULT_SETTINGS \<lparr>rect_left = 0, rect_top = 0, rect_width = 100, rect_height = 100\<rparr> Move
        initialState \<lparr>touch_identifier = 7, clientX = 50, clientY = 50, perfNow = 3000\<rparr> = initialState
   \<and> cursors (fst (processTouch DEFAULT_SETTINGS \<lparr>rect_left = 0, rect_top = 0, rect_width = 100, rect_height = 100\<rparr> Move
        [\<lparr>touch_identifier = 7, clientX = 50, clientY = 50, perfNow = 3000\<rparr>]
        (fst (processTouch DEFAULT_SETTINGS \<lparr>rect_left = 0, rect_top = 0, rect_width = 100, rect_height = 100\<rparr> End
          [\<lparr>touch_identifier = 7, clientX = 20, clientY = 30, perfNow = 2000\<rparr>]
          (fst (processTouch DEFAULT_SETTINGS \<lparr>rect_left = 0, rect_top = 0, rect_width = 100, rect_height = 100\<rparr> Start
            [\<lparr>touch_identifier = 7, clientX = 20, clientY = 30, perfNow = 1000\<rparr>] initialState)))))) = []
   \<and> sessionIdCounter (fst (processTouch DEFAULT_SETTINGS \<lparr>rect_left = 0, rect_top = 0, rect_width = 100, rect_height = 100\<rparr> Move
        [\<lparr>touch_identifier = 7, clientX = 50, clientY = 50, perfNow = 3000\<rparr>]
        (fst (processTouch DEFAULT_SETTINGS \<lparr>rect_left = 0, rect_top = 0, rect_width = 100, rect_height = 100\<rparr> End
          [\<lparr>touch_identifier = 7, clientX = 20, clientY = 30, perfNow = 2000\<rparr>]
          (fst (processTouch DEFAULT_SETTINGS \<lparr>rect_left = 0, rect_top = 0, rect_width = 100, rect_height = 100\<rparr> Start
            [\<lparr>touch_identifier = 7, clientX = 20, clientY = 30, perfNow = 1000\<rparr>] initialState)))))) = 1"
proof -
  let ?rect = "\<lparr>rect_left = 0, rect_top = 0, rect_width = 100, rect_height = 100\<rparr>"
  let ?ta = "\<lparr>touch_identifier = 7, clientX = 20, clientY = 30, perfNow = 1000\<rparr>"
  let ?tb = "\<lparr>touch_identifier = 7, clientX = 20, clientY = 30, perfNow = 2000\<rparr>"
  let ?tc = "\<lparr>touch_identifier = 7, clientX = 50, clientY = 50, perfNow = 3000\<rparr>"
  let ?st1 = "fst (processTouch DEFAULT_SETTINGS ?rect Start [?ta] initialState)"
  let ?st2 = "fst (processTouch DEFAULT_SETTINGS ?rect End [?tb] ?st1)"
  have absent: "Map_get (cursors initialState) (toString (touch_identifier ?tc)) = None"
    by (simp add: initialState_def Map_get_def)
  have ids: "touch_identifier ?tb = touch_identifier ?ta \<and> touch_identifier ?tc = touch_identifier ?ta"
    by simp
  have st2: "cursors ?st2 = [] \<and> sessionIdCounter ?st2 = 1"
    by (simp add: processTouch_def touchStep_def buildFrame_eq
        createNewCursor_def getNextSessionId_def normalise_def toString_def digits.simps
        Map_delete_def initialState_def DEFAULT_SETTINGS_def Let_def)
  from move_absent_noop [where st = initialState and touch = ?tc and settings = DEFAULT_SETTINGS
         and rect = ?rect and ta = ?ta and tb = ?tb and tc = ?tc and ?r1.0 = ?rect and ?r2.0 = ?rect
         and ?r3.0 = ?rect]
       absent ids st2
  show ?thesis by (simp add: Let_def)
qed

end
